theory Spec2Isabelle
  imports Main "HOL-Library.AList" "HOL-Library.Sublist"
begin

section \<open>JavaScript values and exceptions\<close>

text \<open>
  The sources are untyped JavaScript (the session provider) and TypeScript whose
  network data is of type \<open>any\<close>. The values that flow through them are modelled by
  one datatype. An object is the list of its own enumerable properties in insertion
  order (the order in which the object enumerates them); an array is the list of
  its elements. The number type is left open
  (\<open>'n\<close>): the program never computes with numbers, it only tests them for
  truthiness and converts them to text, and both enter as parameters.
\<close>

datatype 'n jsval =
    JUndefined
  | JNull
  | JBool bool
  | JNum 'n
  | JStr string
  | JArr "'n jsval list"
  | JObj "(string \<times> 'n jsval) list"

text \<open>
  A thrown value. \<open>new Error(m)\<close> is \<open>Error m\<close>; the engine's own \<open>TypeError\<close> and
  \<open>SyntaxError\<close> carry a message too, and so does the \<open>DOMException\<close> that the
  browser's storage throws. \<open>message\<close> is the property \<open>err.message\<close>.
\<close>

datatype exn = Error string | TypeError string | SyntaxError string | DOMException string

primrec message :: "exn \<Rightarrow> string" where
  "message (Error m) = m"
| "message (TypeError m) = m"
| "message (SyntaxError m) = m"
| "message (DOMException m) = m"

section \<open>The session provider (AuthProvider)\<close>

text \<open>
  The three \<open>useState\<close> cells and the browser's \<open>localStorage\<close>, which the provider
  reads and writes under the single key \<open>'user'\<close>. \<open>user\<close> and \<open>error\<close> start as
  \<open>null\<close>: \<open>JNull\<close> is "no user", \<open>None\<close> is "no error". \<open>localStorage\<close> is a map
  from keys to strings. Reading and removing are taken to succeed. Writing can throw
  (a full quota): \<open>storage_error k v ls\<close> is what \<open>setItem(k, v)\<close> throws on the
  content \<open>ls\<close>, if it throws, and is the browser's, so a parameter; a write that
  throws stores nothing.
\<close>

record 'n session =
  user :: "'n jsval"
  loading :: bool
  error :: "string option"
  localStorage :: "string \<rightharpoonup> string"

definition getItem :: "string \<Rightarrow> (string \<rightharpoonup> string) \<Rightarrow> string option" where
  "getItem k ls = ls k"

definition setItem ::
  "(string \<Rightarrow> string \<Rightarrow> (string \<rightharpoonup> string) \<Rightarrow> exn option) \<Rightarrow> string \<Rightarrow> string
     \<Rightarrow> (string \<rightharpoonup> string) \<Rightarrow> exn + (string \<rightharpoonup> string)" where
  "setItem storage_error k v ls =
     (case storage_error k v ls of
        Some e \<Rightarrow> Inl e
      | None \<Rightarrow> Inr (ls(k \<mapsto> v)))"

definition removeItem :: "string \<Rightarrow> (string \<rightharpoonup> string) \<Rightarrow> (string \<rightharpoonup> string)" where
  "removeItem k ls = ls(k := None)"

text \<open>The state the provider is mounted with, over whatever the browser has stored.\<close>

definition initial_session :: "(string \<rightharpoonup> string) \<Rightarrow> 'n session" where
  "initial_session ls = \<lparr>user = JNull, loading = True, error = None, localStorage = ls\<rparr>"

text \<open>
  \<open>JSON.parse\<close> and \<open>JSON.stringify\<close> are the platform's, not the repository's: they
  are parameters of the operations that call them. \<open>JSON_parse s\<close> is \<open>Inl e\<close> when
  parsing throws \<open>e\<close>. \<open>JSON_stringify v\<close> is \<open>None\<close> when the result is \<open>undefined\<close>
  (as for \<open>JSON.stringify(undefined)\<close>); \<open>setItem\<close> then stores the text
  \<open>undefined\<close>, since it converts its argument to a string.
\<close>

definition stored_text :: "string option \<Rightarrow> string" where
  "stored_text r = (case r of None \<Rightarrow> ''undefined'' | Some s \<Rightarrow> s)"

text \<open>
  The mount effect. \<open>if (storedUser)\<close> is false for \<open>null\<close> (no entry) and for the
  empty string. The \<open>catch\<close> swallows what \<open>JSON.parse\<close> throws and removes the entry;
  \<open>finally\<close> clears \<open>loading\<close>. The first component is the failure that leaves the
  effect, if any.
\<close>

definition restore :: "(string \<Rightarrow> exn + 'n jsval) \<Rightarrow> 'n session \<Rightarrow> exn option \<times> 'n session" where
  "restore JSON_parse s =
     (let tried =
        (case getItem ''user'' (localStorage s) of
           None \<Rightarrow> Inr s
         | Some storedUser \<Rightarrow>
             if storedUser \<noteq> [] then
               (case JSON_parse storedUser of
                  Inr v \<Rightarrow> Inr (s\<lparr>user := v\<rparr>)
                | Inl e \<Rightarrow> Inl e)
             else Inr s);
          caught =
        (case tried of
           Inr s1 \<Rightarrow> s1
         | Inl e \<Rightarrow> s\<lparr>localStorage := removeItem ''user'' (localStorage s)\<rparr>)
      in (None, caught\<lparr>loading := False\<rparr>))"

text \<open>
  \<open>login\<close>, as a function of what \<open>authService.loginUser\<close> settles with: \<open>Inr\<close> the
  resolved value, \<open>Inl\<close> the rejection. The result is what the returned promise
  settles with. The \<open>catch\<close> covers the whole \<open>try\<close> block: when the backend has
  succeeded and \<open>localStorage.setItem\<close> throws, \<open>setUser\<close> has already run, and the
  \<open>catch\<close> records the message and re-throws as it does for a backend failure.
\<close>

definition login ::
  "('n jsval \<Rightarrow> string option) \<Rightarrow> (string \<Rightarrow> string \<Rightarrow> (string \<rightharpoonup> string) \<Rightarrow> exn option)
     \<Rightarrow> ('a \<Rightarrow> 'b \<Rightarrow> exn + 'n jsval) \<Rightarrow> 'a \<Rightarrow> 'b \<Rightarrow> 'n session
     \<Rightarrow> (exn + 'n jsval) \<times> 'n session" where
  "login JSON_stringify storage_error loginUser email pass s =
     (let s1 = s\<lparr>loading := True\<rparr>;
          s2 = s1\<lparr>error := None\<rparr>
      in case loginUser email pass of
           Inr loggedInUser \<Rightarrow>
             let s3 = s2\<lparr>user := loggedInUser\<rparr>
             in (case setItem storage_error ''user'' (stored_text (JSON_stringify loggedInUser))
                        (localStorage s3) of
                   Inr ls \<Rightarrow>
                     let s4 = s3\<lparr>localStorage := ls\<rparr>
                     in (Inr loggedInUser, s4\<lparr>loading := False\<rparr>)
                 | Inl err \<Rightarrow>
                     let s4 = s3\<lparr>error := Some (message err)\<rparr>
                     in (Inl err, s4\<lparr>loading := False\<rparr>))
         | Inl err \<Rightarrow>
             let s3 = s2\<lparr>error := Some (message err)\<rparr>
             in (Inl err, s3\<lparr>loading := False\<rparr>))"

text \<open>
  \<open>signup\<close> builds the object \<open>{ name, email, password: pass, role: 'user', avatar }\<close>
  and hands it to \<open>authService.createUser\<close>, whose resolved value it drops: the
  promise resolves with \<open>undefined\<close>.
\<close>

definition signup ::
  "('n jsval \<Rightarrow> exn + 'r) \<Rightarrow> 'n jsval \<Rightarrow> 'n jsval \<Rightarrow> 'n jsval \<Rightarrow> 'n jsval \<Rightarrow> 'n session
     \<Rightarrow> (exn + 'n jsval) \<times> 'n session" where
  "signup createUser name email pass avatar s =
     (let s1 = s\<lparr>loading := True\<rparr>;
          s2 = s1\<lparr>error := None\<rparr>
      in case createUser (JObj [(''name'', name), (''email'', email), (''password'', pass),
                                (''role'', JStr ''user''), (''avatar'', avatar)]) of
           Inr _ \<Rightarrow> (Inr JUndefined, s2\<lparr>loading := False\<rparr>)
         | Inl err \<Rightarrow>
             let s3 = s2\<lparr>error := Some (message err)\<rparr>
             in (Inl err, s3\<lparr>loading := False\<rparr>))"

definition logout :: "'n session \<Rightarrow> 'n session" where
  "logout s = (let s1 = s\<lparr>user := JNull\<rparr>
               in s1\<lparr>localStorage := removeItem ''user'' (localStorage s1)\<rparr>)"

text \<open>
  \<open>updateCurrentUser\<close> has no \<open>try\<close>: what \<open>setItem\<close> throws leaves the function
  (the first component), after \<open>setUser\<close> has run.
\<close>

definition updateCurrentUser ::
  "('n jsval \<Rightarrow> string option) \<Rightarrow> (string \<Rightarrow> string \<Rightarrow> (string \<rightharpoonup> string) \<Rightarrow> exn option)
     \<Rightarrow> 'n jsval \<Rightarrow> 'n session \<Rightarrow> exn option \<times> 'n session" where
  "updateCurrentUser JSON_stringify storage_error updatedUser s =
     (let s1 = s\<lparr>user := updatedUser\<rparr>
      in case setItem storage_error ''user'' (stored_text (JSON_stringify updatedUser))
                (localStorage s1) of
           Inr ls \<Rightarrow> (None, s1\<lparr>localStorage := ls\<rparr>)
         | Inl err \<Rightarrow> (Some err, s1))"

text \<open>\<open>useAuth\<close>: the context value, or an error outside a provider (\<open>undefined\<close>).\<close>

definition useAuth :: "'c option \<Rightarrow> exn + 'c" where
  "useAuth context =
     (case context of
        None \<Rightarrow> Inl (Error ''useAuth must be used within an AuthProvider'')
      | Some c \<Rightarrow> Inr c)"

section \<open>The archive upload client\<close>

datatype MediaType = Movies | Texts | Image

text \<open>The string a \<open>MediaType\<close> is at run time (\<open>'movies' | 'texts' | 'image'\<close>).\<close>

primrec MediaType_text :: "MediaType \<Rightarrow> string" where
  "MediaType_text Movies = ''movies''"
| "MediaType_text Texts = ''texts''"
| "MediaType_text Image = ''image''"

text \<open>The two properties of a \<open>File\<close> that the client reads.\<close>

record File =
  name :: string
  type :: string

definition getMediaType :: "File \<Rightarrow> MediaType" where
  "getMediaType file =
     (if prefix ''video/'' (type file) then Movies
      else if type file = ''application/pdf'' then Texts
      else if prefix ''image/'' (type file) then Image
      else Texts)"

text \<open>
  Decimal text of a natural number, as a template literal prints an integer.
  \<open>digit_char\<close> is only ever applied to a digit, \<open>n < 10\<close> or \<open>n mod 10\<close>.
\<close>

definition digit_char :: "nat \<Rightarrow> char" where
  "digit_char d = ''0123456789'' ! d"

fun nat_text :: "nat \<Rightarrow> string" where
  "nat_text n = (if n < 10 then [digit_char n] else nat_text (n div 10) @ [digit_char (n mod 10)])"

declare nat_text.simps [simp del]

text \<open>
  What the client does to its \<open>XMLHttpRequest\<close>, in order, and what the request
  answers with: \<open>Load status statusText responseText\<close> fires \<open>onload\<close>, \<open>NetworkError\<close>
  fires \<open>onerror\<close>.
\<close>

datatype xhr_call =
    XhrOpen string string bool
  | XhrSetRequestHeader string string
  | XhrSend File

datatype xhr_event = Load nat string string | NetworkError

definition errorMessage :: string where
  "errorMessage = ''Archive service API keys are not configured. Please set ARCHIVE_ACCESS_KEY and ARCHIVE_SECRET_KEY environment variables.''"

text \<open>
  \<open>uploadFile\<close>. \<open>ACCESS_KEY\<close> and \<open>SECRET_KEY\<close> are the module's two constants (the
  environment's value, or \<open>''\<close>); \<open>encodeURIComponent\<close> is the platform's. The result
  is the list of calls made on the request and what the promise settles with (\<open>None\<close>
  while the request has fired neither handler). Progress events only call
  \<open>onProgress\<close> and are left out.
\<close>

definition uploadFile ::
  "string \<Rightarrow> string \<Rightarrow> (string \<Rightarrow> string) \<Rightarrow> File \<Rightarrow> string \<Rightarrow> xhr_event option
     \<Rightarrow> xhr_call list \<times> (exn + string) option" where
  "uploadFile ACCESS_KEY SECRET_KEY encodeURIComponent file itemName answer =
     (if ACCESS_KEY = [] \<or> SECRET_KEY = [] then ([], Some (Inl (Error errorMessage)))
      else
        let url = ''https://s3.us.archive.org/'' @ itemName @ ''/'' @ encodeURIComponent (name file);
            mediaType = getMediaType file;
            calls =
              [XhrOpen ''PUT'' url True,
               XhrSetRequestHeader ''Authorization'' (''LOW '' @ ACCESS_KEY @ '':'' @ SECRET_KEY),
               XhrSetRequestHeader ''x-amz-auto-make-bucket'' ''1'',
               XhrSetRequestHeader ''x-archive-meta-collection'' ''opensource'',
               XhrSetRequestHeader ''x-archive-meta-mediatype'' (MediaType_text mediaType),
               XhrSetRequestHeader ''Content-Type'' (type file),
               XhrSend file]
        in (calls,
            case answer of
              None \<Rightarrow> None
            | Some (Load status statusText responseText) \<Rightarrow>
                if 200 \<le> status \<and> status < 300 then
                  Some (Inr (''https://archive.org/download/'' @ itemName @ ''/''
                             @ encodeURIComponent (name file)))
                else
                  Some (Inl (Error (''Upload failed: '' @ nat_text status @ '' '' @ statusText
                                    @ '' - '' @ responseText)))
            | Some NetworkError \<Rightarrow> Some (Inl (Error ''Network error during upload.''))))"

section \<open>The resource list client\<close>

text \<open>
  What \<open>fetch(API_URL)\<close> settles with: a rejection, or a response with its \<open>ok\<close> flag
  and what \<open>response.json()\<close> settles with.
\<close>

datatype 'n fetched = Rejected exn | Response bool "exn + 'n jsval"

text \<open>
  Truthiness, for \<open>data.data || []\<close>. \<open>nonzero n\<close> says that the number \<open>n\<close> is neither
  a zero nor \<open>NaN\<close>.
\<close>

fun truthy :: "('n \<Rightarrow> bool) \<Rightarrow> 'n jsval \<Rightarrow> bool" where
  "truthy nonzero JUndefined = False"
| "truthy nonzero JNull = False"
| "truthy nonzero (JBool b) = b"
| "truthy nonzero (JNum n) = nonzero n"
| "truthy nonzero (JStr s) = (s \<noteq> [])"
| "truthy nonzero (JArr xs) = True"
| "truthy nonzero (JObj ps) = True"

text \<open>
  Reading a property, for the two names the client reads, \<open>data\<close> and \<open>id\<close>: neither
  is an array index, \<open>length\<close>, or a property of a built-in prototype, so only an
  object can have it, as an own property. Reading from \<open>null\<close> or \<open>undefined\<close> throws.
  The texts of the engine's \<open>TypeError\<close>s are the engine's choice.
\<close>

fun get_prop :: "'n jsval \<Rightarrow> string \<Rightarrow> exn + 'n jsval" where
  "get_prop JUndefined k = Inl (TypeError (''Cannot read properties of undefined (reading '' @ k @ '')''))"
| "get_prop JNull k = Inl (TypeError (''Cannot read properties of null (reading '' @ k @ '')''))"
| "get_prop (JObj ps) k = (case map_of ps k of None \<Rightarrow> Inr JUndefined | Some v \<Rightarrow> Inr v)"
| "get_prop v k = Inr JUndefined"

text \<open>
  \<open>String(v)\<close>. \<open>number_text\<close> is the text of a number. An array is the texts of its
  elements joined by commas, \<open>null\<close> and \<open>undefined\<close> elements being empty. An object
  built from data has no callable property: with an own \<open>toString\<close> the conversion
  finds nothing to call and throws, without one it is \<open>Object.prototype.toString\<close>.
\<close>

fun js_String :: "('n \<Rightarrow> string) \<Rightarrow> 'n jsval \<Rightarrow> exn + string"
  and join :: "('n \<Rightarrow> string) \<Rightarrow> 'n jsval list \<Rightarrow> exn + string" where
  "js_String number_text JUndefined = Inr ''undefined''"
| "js_String number_text JNull = Inr ''null''"
| "js_String number_text (JBool b) = Inr (if b then ''true'' else ''false'')"
| "js_String number_text (JNum n) = Inr (number_text n)"
| "js_String number_text (JStr s) = Inr s"
| "js_String number_text (JArr xs) = join number_text xs"
| "js_String number_text (JObj ps) =
     (if map_of ps ''toString'' = None then Inr ''[object Object]''
      else Inl (TypeError ''Cannot convert object to primitive value''))"
| "join number_text [] = Inr []"
| "join number_text (x # xs) =
     (case (case x of JUndefined \<Rightarrow> Inr [] | JNull \<Rightarrow> Inr [] | _ \<Rightarrow> js_String number_text x) of
        Inl e \<Rightarrow> Inl e
      | Inr t \<Rightarrow>
          if xs = [] then Inr t
          else (case join number_text xs of Inl e \<Rightarrow> Inl e | Inr ts \<Rightarrow> Inr (t @ '','' @ ts)))"

text \<open>
  The own enumerable properties that \<open>{...v}\<close> copies: an object's properties, an
  array's elements and a string's characters under their indices, nothing for the
  other values.
\<close>

definition indexed :: "'a list \<Rightarrow> (string \<times> 'a) list" where
  "indexed xs = zip (map nat_text [0..<length xs]) xs"

fun spread :: "'n jsval \<Rightarrow> (string \<times> 'n jsval) list" where
  "spread (JObj ps) = ps"
| "spread (JArr xs) = indexed xs"
| "spread (JStr s) = indexed (map (\<lambda>c. JStr [c]) s)"
| "spread v = []"

text \<open>The callback of \<open>resources.map\<close>: \<open>{ ...resource, id: String(resource.id) }\<close>.\<close>

definition with_text_id :: "('n \<Rightarrow> string) \<Rightarrow> 'n jsval \<Rightarrow> exn + 'n jsval" where
  "with_text_id number_text resource =
     (case get_prop resource ''id'' of
        Inl e \<Rightarrow> Inl e
      | Inr i \<Rightarrow>
          (case js_String number_text i of
             Inl e \<Rightarrow> Inl e
           | Inr t \<Rightarrow> Inr (JObj (AList.update ''id'' (JStr t) (spread resource)))))"

text \<open>\<open>Array.prototype.map\<close> with a callback that may throw: the first throw ends it.\<close>

fun map_throwing :: "('a \<Rightarrow> exn + 'b) \<Rightarrow> 'a list \<Rightarrow> exn + 'b list" where
  "map_throwing f [] = Inr []"
| "map_throwing f (x # xs) =
     (case f x of
        Inl e \<Rightarrow> Inl e
      | Inr y \<Rightarrow> (case map_throwing f xs of Inl e \<Rightarrow> Inl e | Inr ys \<Rightarrow> Inr (y # ys)))"

definition getResources :: "('n \<Rightarrow> bool) \<Rightarrow> ('n \<Rightarrow> string) \<Rightarrow> 'n fetched \<Rightarrow> exn + 'n jsval list" where
  "getResources nonzero number_text response =
     (case response of
        Rejected e \<Rightarrow> Inl e
      | Response ok json \<Rightarrow>
          if \<not> ok then Inl (Error ''Failed to fetch resources'')
          else
            (case json of
               Inl e \<Rightarrow> Inl e
             | Inr data \<Rightarrow>
                 (case get_prop data ''data'' of
                    Inl e \<Rightarrow> Inl e
                  | Inr d \<Rightarrow>
                      (case (if truthy nonzero d then d else JArr []) of
                         JArr resources \<Rightarrow> map_throwing (with_text_id number_text) resources
                       | _ \<Rightarrow> Inl (TypeError ''resources.map is not a function'')))))"

section \<open>Sample data\<close>

text \<open>
  Concrete arguments for the examples that follow the theorems: numbers are integers,
  and the platform's functions are given by the few rows of their tables that the
  examples read. \<open>example_parse\<close> throws on every other text, \<open>example_stringify\<close>
  yields \<open>undefined\<close> on every other value. \<open>lin\<close> is a record with a property
  whose value is \<open>undefined\<close>, which \<open>JSON.stringify\<close> leaves out of the text.
  \<open>storage_accepts\<close> is a storage with room, \<open>storage_full\<close> one whose quota is
  used up.
\<close>

definition storage_accepts :: "string \<Rightarrow> string \<Rightarrow> (string \<rightharpoonup> string) \<Rightarrow> exn option" where
  "storage_accepts k v ls = None"

definition storage_full :: "string \<Rightarrow> string \<Rightarrow> (string \<rightharpoonup> string) \<Rightarrow> exn option" where
  "storage_full k v ls = Some (DOMException ''The quota has been exceeded.'')"

definition lin :: "int jsval" where
  "lin = JObj [(''id'', JNum 9), (''nick'', JUndefined)]"

definition int_text :: "int \<Rightarrow> string" where
  "int_text i = (if i < 0 then ''-'' @ nat_text (nat (- i)) else nat_text (nat i))"

definition int_nonzero :: "int \<Rightarrow> bool" where
  "int_nonzero i = (i \<noteq> 0)"

definition ada :: "int jsval" where
  "ada = JObj [(''id'', JNum 7), (''name'', JStr ''Ada'')]"

definition example_session :: "int session" where
  "example_session = initial_session [''user'' \<mapsto> ''42'']"

definition example_parse :: "string \<Rightarrow> exn + int jsval" where
  \<open>example_parse t =
     (if t = ''{"id":7,"name":"Ada"}'' then Inr ada
      else if t = ''{"id":9}'' then Inr (JObj [(''id'', JNum 9)])
      else if t = ''[1,2]'' then Inr (JArr [JNum 1, JNum 2])
      else if t = ''42'' then Inr (JNum 42)
      else if t = ''null'' then Inr JNull
      else Inl (SyntaxError ''Unexpected token''))\<close>

definition example_stringify :: "int jsval \<Rightarrow> string option" where
  \<open>example_stringify v =
     (if v = ada then Some ''{"id":7,"name":"Ada"}''
      else if v = lin then Some ''{"id":9}''
      else if v = JArr [JNum 1, JNum 2] then Some ''[1,2]''
      else if v = JNum 42 then Some ''42''
      else if v = JNull then Some ''null''
      else None)\<close>

definition example_loginUser :: "string \<Rightarrow> string \<Rightarrow> exn + int jsval" where
  "example_loginUser email pass =
     (if email = ''ada@example.org'' \<and> pass = ''analytical'' then Inr ada
      else if email = ''lin@example.org'' \<and> pass = ''kernel'' then Inr lin
      else Inl (Error ''Invalid email or password''))"

definition example_createUser :: "int jsval \<Rightarrow> exn + unit" where
  "example_createUser payload =
     (if get_prop payload ''email'' = Inr (JStr ''ada@example.org'')
      then Inl (Error ''Email already registered'')
      else Inr ())"

definition example_body :: "int jsval" where
  "example_body =
     JObj [(''data'',
            JArr [JObj [(''id'', JNum 1), (''title'', JStr ''Anatomy'')],
                  JObj [(''title'', JStr ''Biology''), (''id'', JStr ''2'')]])]"

definition example_resources :: "int jsval list" where
  "example_resources =
     [JObj [(''id'', JStr ''1''), (''title'', JStr ''Anatomy'')],
      JObj [(''title'', JStr ''Biology''), (''id'', JStr ''2'')]]"

section \<open>Auxiliary facts\<close>

lemma map_throwing_Inr:
  "map_throwing f xs = Inr ys \<Longrightarrow>
     length ys = length xs \<and> (\<forall>i<length xs. f (xs ! i) = Inr (ys ! i))"
proof (induction xs arbitrary: ys)
  case Nil
  then show ?case by simp
next
  case (Cons x xs)
  from Cons.prems obtain y ys' where fx: "f x = Inr y"
    and rest: "map_throwing f xs = Inr ys'" and ys: "ys = y # ys'"
    by (auto split: sum.splits)
  from Cons.IH [OF rest] have len: "length ys' = length xs"
    and pt: "\<forall>i<length xs. f (xs ! i) = Inr (ys' ! i)" by simp_all
  show ?case
  proof (intro conjI allI impI)
    show "length ys = length (x # xs)" using len ys by simp
  next
    fix i assume "i < length (x # xs)"
    then show "f ((x # xs) ! i) = Inr (ys ! i)"
      using fx pt ys by (cases i) simp_all
  qed
qed

lemma with_text_id_Inr:
  assumes "with_text_id number_text r = Inr y"
  shows "\<exists>idv t. get_prop r ''id'' = Inr idv \<and> js_String number_text idv = Inr t \<and>
           y = JObj (AList.update ''id'' (JStr t) (spread r))"
  using assms by (auto simp add: with_text_id_def split: sum.splits)

lemma getResources_Inr:
  assumes "getResources nonzero number_text response = Inr out"
  shows "\<exists>body d. response = Response True (Inr body) \<and> get_prop body ''data'' = Inr d \<and>
           ((\<not> truthy nonzero d \<and> out = []) \<or>
            (\<exists>rs. d = JArr rs \<and> map_throwing (with_text_id number_text) rs = Inr out))"
  using assms
  by (auto simp add: getResources_def split: fetched.splits sum.splits if_splits jsval.splits)

lemma getResources_pointwise:
  assumes "getResources nonzero number_text response = Inr out" and "i < length out"
  shows "\<exists>body rs. response = Response True (Inr body) \<and>
           get_prop body ''data'' = Inr (JArr rs) \<and> length rs = length out \<and>
           with_text_id number_text (rs ! i) = Inr (out ! i)"
proof -
  from getResources_Inr [OF assms(1)] assms(2)
  obtain body rs where resp: "response = Response True (Inr body)"
    and d: "get_prop body ''data'' = Inr (JArr rs)"
    and m: "map_throwing (with_text_id number_text) rs = Inr out"
    by auto
  from map_throwing_Inr [OF m] assms(2)
  have "length rs = length out" and "with_text_id number_text (rs ! i) = Inr (out ! i)"
    by simp_all
  with resp d show ?thesis by blast
qed

lemma example_getResources:
  "getResources int_nonzero int_text (Response True (Inr example_body)) = Inr example_resources"
  by (simp add: getResources_def example_body_def example_resources_def with_text_id_def
      int_text_def nat_text.simps digit_char_def)

section \<open>The session provider: login\<close>

text \<open>
  C1. When \<open>authService.loginUser\<close> fails with an error, \<open>login\<close> records that
  error's message in \<open>error\<close>, rejects with the same error, and leaves \<open>user\<close> and the
  whole of \<open>localStorage\<close> (so the stored entry too) as they were before the call.
\<close>

theorem login_failure:
  assumes "loginUser email pass = Inl err"
  shows "case login JSON_stringify storage_error loginUser email pass s of
           (result, s') \<Rightarrow>
             result = Inl err \<and> error s' = Some (message err) \<and>
             user s' = user s \<and> localStorage s' = localStorage s"
  using assms by (simp add: login_def)

theorem login_failure_example:
  \<open>example_loginUser ''ada@example.org'' ''guess'' = Inl (Error ''Invalid email or password'') \<and>
   (case login example_stringify storage_accepts example_loginUser ''ada@example.org'' ''guess''
           example_session of
      (result, s') \<Rightarrow>
        result = Inl (Error ''Invalid email or password'') \<and>
        error s' = Some (message (Error ''Invalid email or password'')) \<and>
        user s' = user example_session \<and>
        localStorage s' = localStorage example_session)\<close>
proof -
  have h: "example_loginUser ''ada@example.org'' ''guess'' = Inl (Error ''Invalid email or password'')"
    by (simp add: example_loginUser_def)
  from login_failure
         [where loginUser = example_loginUser and email = "''ada@example.org''" and pass = "''guess''"
            and err = "Error ''Invalid email or password''" and JSON_stringify = example_stringify
            and storage_error = storage_accepts and s = "example_session", OF h] h
  show ?thesis by simp
qed

text \<open>
  When the backend has succeeded and \<open>localStorage.setItem\<close> throws, \<open>login\<close> rejects
  with what was thrown and records its message; \<open>user\<close> is already the record and
  nothing was stored.
\<close>

lemma login_storage_refused:
  assumes "loginUser email pass = Inr u"
    and "storage_error ''user'' (stored_text (JSON_stringify u)) (localStorage s) = Some e"
  shows "case login JSON_stringify storage_error loginUser email pass s of
           (result, s') \<Rightarrow>
             result = Inl e \<and> error s' = Some (message e) \<and>
             user s' = u \<and> localStorage s' = localStorage s"
  using assms by (simp add: login_def setItem_def)

text \<open>
  C2, as the code has it. The claim that every login in which the backend succeeds
  returns the record and leaves a stored entry that decodes to the in-memory \<open>user\<close>
  fails in two ways. The record \<open>lin\<close> has a property whose value is \<open>undefined\<close>:
  its stored text is \<open>{"id":9}\<close>, which decodes to a record without that property,
  not to \<open>user\<close>. And on a full storage the login of \<open>ada\<close> rejects, although the
  backend succeeded: \<open>user\<close> is \<open>ada\<close> and nothing is stored.
\<close>

theorem login_success_entry_differs:
  \<open>example_loginUser ''lin@example.org'' ''kernel'' = Inr lin \<and>
   fst (login example_stringify storage_accepts example_loginUser ''lin@example.org'' ''kernel''
          (initial_session Map.empty)) = Inr lin \<and>
   user (snd (login example_stringify storage_accepts example_loginUser ''lin@example.org''
                ''kernel'' (initial_session Map.empty))) = lin \<and>
   getItem ''user''
     (localStorage (snd (login example_stringify storage_accepts example_loginUser
                           ''lin@example.org'' ''kernel'' (initial_session Map.empty))))
     = Some ''{"id":9}'' \<and>
   example_parse ''{"id":9}'' = Inr (JObj [(''id'', JNum 9)]) \<and>
   JObj [(''id'', JNum 9)] \<noteq> lin \<and>
   example_loginUser ''ada@example.org'' ''analytical'' = Inr ada \<and>
   fst (login example_stringify storage_full example_loginUser ''ada@example.org'' ''analytical''
          (initial_session Map.empty))
     = Inl (DOMException ''The quota has been exceeded.'') \<and>
   user (snd (login example_stringify storage_full example_loginUser ''ada@example.org''
                ''analytical'' (initial_session Map.empty))) = ada \<and>
   getItem ''user''
     (localStorage (snd (login example_stringify storage_full example_loginUser
                           ''ada@example.org'' ''analytical'' (initial_session Map.empty))))
     = None\<close>
  by (simp add: login_def setItem_def getItem_def initial_session_def example_loginUser_def
      example_stringify_def example_parse_def stored_text_def storage_accepts_def
      storage_full_def lin_def ada_def)

text \<open>
  C2, amended. When \<open>authService.loginUser\<close> succeeds with a record and
  \<open>localStorage.setItem\<close> does not throw, \<open>login\<close> resolves with that record, sets
  \<open>user\<close> to it, and stores under \<open>'user'\<close> the \<open>JSON.stringify\<close> text of the very
  value it keeps in \<open>user\<close>. Decoding the stored entry gives the in-memory \<open>user\<close>
  exactly when \<open>JSON.parse\<close> recovers the record from its \<open>JSON.stringify\<close> text.
\<close>

theorem login_success:
  assumes "loginUser email pass = Inr u"
    and "storage_error ''user'' (stored_text (JSON_stringify u)) (localStorage s) = None"
  shows "case login JSON_stringify storage_error loginUser email pass s of
           (result, s') \<Rightarrow>
             result = Inr u \<and> user s' = u \<and>
             getItem ''user'' (localStorage s') = Some (stored_text (JSON_stringify (user s'))) \<and>
             ((\<exists>t. getItem ''user'' (localStorage s') = Some t \<and> JSON_parse t = Inr (user s'))
                \<longleftrightarrow> JSON_parse (stored_text (JSON_stringify u)) = Inr u)"
  using assms by (simp add: login_def getItem_def setItem_def)

theorem login_success_example:
  \<open>example_loginUser ''ada@example.org'' ''analytical'' = Inr ada \<and>
   storage_accepts ''user'' (stored_text (example_stringify ada))
       (localStorage (initial_session Map.empty :: int session)) = None \<and>
   example_parse (stored_text (example_stringify ada)) = Inr ada \<and>
   (case login example_stringify storage_accepts example_loginUser ''ada@example.org''
           ''analytical'' (initial_session Map.empty) of
      (result, s') \<Rightarrow>
        result = Inr ada \<and> user s' = ada \<and>
        getItem ''user'' (localStorage s') = Some (stored_text (example_stringify (user s'))) \<and>
        ((\<exists>t. getItem ''user'' (localStorage s') = Some t \<and> example_parse t = Inr (user s'))
           \<longleftrightarrow> example_parse (stored_text (example_stringify ada)) = Inr ada))\<close>
proof -
  have h1: "example_loginUser ''ada@example.org'' ''analytical'' = Inr ada"
    by (simp add: example_loginUser_def)
  have h2: "storage_accepts ''user'' (stored_text (example_stringify ada))
              (localStorage (initial_session Map.empty :: int session)) = None"
    by (simp add: storage_accepts_def)
  have h3: "example_parse (stored_text (example_stringify ada)) = Inr ada"
    by (simp add: example_parse_def example_stringify_def stored_text_def)
  from login_success
         [where loginUser = example_loginUser and email = "''ada@example.org''"
            and pass = "''analytical''" and u = ada and JSON_parse = example_parse
            and JSON_stringify = example_stringify and storage_error = storage_accepts
            and s = "initial_session Map.empty", OF h1 h2]
  have p: "case login example_stringify storage_accepts example_loginUser ''ada@example.org''
           ''analytical'' (initial_session Map.empty) of
      (result, s') \<Rightarrow>
        result = Inr ada \<and> user s' = ada \<and>
        getItem ''user'' (localStorage s') = Some (stored_text (example_stringify (user s'))) \<and>
        ((\<exists>t. getItem ''user'' (localStorage s') = Some t \<and> example_parse t = Inr (user s'))
           \<longleftrightarrow> example_parse (stored_text (example_stringify ada)) = Inr ada)" .
  from h1 h2 h3 p show ?thesis by (intro conjI)
qed

section \<open>The session provider: restore\<close>

text \<open>
  C3, as the code has it. The claim that every stored value that is present but not
  decodable is deleted fails for the empty string: \<open>getItem\<close> returns it, it is not
  JSON, but \<open>if (storedUser)\<close> skips it, so it is neither parsed nor removed.
\<close>

theorem restore_keeps_empty_entry:
  "getItem ''user'' (localStorage (initial_session [''user'' \<mapsto> []] :: int session)) = Some [] \<and>
   example_parse [] = Inl (SyntaxError ''Unexpected token'') \<and>
   getItem ''user''
     (localStorage (snd (restore example_parse (initial_session [''user'' \<mapsto> []])))) = Some []"
  by (simp add: restore_def initial_session_def getItem_def example_parse_def)

text \<open>
  C3, amended. At startup, when the stored entry is present, not empty, and
  \<open>JSON.parse\<close> throws on it, \<open>restore\<close> deletes the entry, leaves \<open>user\<close> as \<open>null\<close>,
  ends with \<open>loading\<close> false and lets no failure out. When the entry is absent or is
  the empty string, \<open>restore\<close> leaves \<open>localStorage\<close> as it is, \<open>user\<close> is \<open>null\<close>,
  \<open>loading\<close> ends false and no failure gets out.
\<close>

theorem restore_undecodable_or_absent:
  "(getItem ''user'' ls = Some t \<and> t \<noteq> [] \<and> JSON_parse t = Inl e \<longrightarrow>
      (case restore JSON_parse (initial_session ls) of
         (failure, s') \<Rightarrow>
           failure = None \<and> getItem ''user'' (localStorage s') = None \<and>
           user s' = JNull \<and> loading s' = False)) \<and>
   (getItem ''user'' ls = None \<or> getItem ''user'' ls = Some [] \<longrightarrow>
      (case restore JSON_parse (initial_session ls) of
         (failure, s') \<Rightarrow>
           failure = None \<and> localStorage s' = ls \<and>
           user s' = JNull \<and> loading s' = False))"
  by (auto simp add: restore_def initial_session_def getItem_def removeItem_def)

theorem restore_undecodable_or_absent_example:
  "getItem ''user'' [''user'' \<mapsto> ''{oops''] = Some ''{oops'' \<and> ''{oops'' \<noteq> [] \<and>
   example_parse ''{oops'' = Inl (SyntaxError ''Unexpected token'') \<and>
   (case restore example_parse (initial_session [''user'' \<mapsto> ''{oops'']) of
      (failure, s') \<Rightarrow>
        failure = None \<and> getItem ''user'' (localStorage s') = None \<and>
        user s' = JNull \<and> loading s' = False) \<and>
   getItem ''user'' Map.empty = None \<and>
   (case restore example_parse (initial_session Map.empty) of
      (failure, s') \<Rightarrow>
        failure = None \<and> localStorage s' = Map.empty \<and>
        user s' = JNull \<and> loading s' = False)"
proof -
  have h1: "getItem ''user'' [''user'' \<mapsto> ''{oops''] = Some ''{oops'' \<and> ''{oops'' \<noteq> [] \<and>
            example_parse ''{oops'' = Inl (SyntaxError ''Unexpected token'')"
    by (simp add: getItem_def example_parse_def)
  have h2: "getItem ''user'' Map.empty = None \<or> getItem ''user'' Map.empty = Some []"
    by (simp add: getItem_def)
  have h3: "getItem ''user'' Map.empty = None"
    by (simp add: getItem_def)
  from restore_undecodable_or_absent
         [where ls = "[''user'' \<mapsto> ''{oops'']" and t = "''{oops''" and JSON_parse = example_parse
            and e = "SyntaxError ''Unexpected token''"] h1
  have p1: "case restore example_parse (initial_session [''user'' \<mapsto> ''{oops'']) of
      (failure, s') \<Rightarrow>
        failure = None \<and> getItem ''user'' (localStorage s') = None \<and>
        user s' = JNull \<and> loading s' = False" by simp
  from restore_undecodable_or_absent
         [where ls = Map.empty and t = "[]" and JSON_parse = example_parse
            and e = "SyntaxError ''Unexpected token''"] h2
  have p2: "case restore example_parse (initial_session Map.empty) of
      (failure, s') \<Rightarrow>
        failure = None \<and> localStorage s' = Map.empty \<and>
        user s' = JNull \<and> loading s' = False" by simp
  from h1 h3 p1 p2 show ?thesis by simp
qed

text \<open>
  C9. \<open>restore\<close> does not look at the shape of what it parsed. \<open>JSON.parse\<close> throws on
  the empty string; given that, whenever the stored entry parses, to any value at all
  (a number, a string, an array, \<open>null\<close>), \<open>restore\<close> sets \<open>user\<close> to the parsed value,
  clears \<open>loading\<close>, and changes nothing else.
\<close>

theorem restore_no_shape_validation:
  assumes "isl (JSON_parse [])"
    and "getItem ''user'' (localStorage s) = Some t"
    and "JSON_parse t = Inr v"
  shows "restore JSON_parse s = (None, s\<lparr>user := v, loading := False\<rparr>)"
proof -
  from assms(1,3) have "t \<noteq> []" by auto
  with assms(2,3) show ?thesis by (simp add: restore_def)
qed

theorem restore_no_shape_validation_example:
  "isl (example_parse []) \<and>
   getItem ''user'' (localStorage example_session) = Some ''42'' \<and>
   example_parse ''42'' = Inr (JNum 42) \<and>
   restore example_parse example_session
     = (None, example_session\<lparr>user := JNum 42, loading := False\<rparr>)"
proof -
  have h0: "isl (example_parse [])" by (simp add: example_parse_def)
  have h1: "getItem ''user'' (localStorage example_session) = Some ''42''"
    by (simp add: getItem_def initial_session_def example_session_def)
  have h2: "example_parse ''42'' = Inr (JNum 42)" by (simp add: example_parse_def)
  from restore_no_shape_validation [OF h0 h1 h2] h0 h1 h2
  show ?thesis by simp
qed

section \<open>The session provider: loading and signup\<close>

text \<open>
  C4. After \<open>restore\<close>, \<open>login\<close> and \<open>signup\<close> have settled, \<open>loading\<close> is false,
  whatever the stored entry was and whether the backend call succeeded or failed.
\<close>

theorem loading_false_after_settling:
  "loading (snd (restore JSON_parse s)) = False \<and>
   loading (snd (login JSON_stringify storage_error loginUser email pass s)) = False \<and>
   loading (snd (signup createUser uname uemail upass avatar s)) = False"
  by (simp add: restore_def login_def signup_def Let_def split: sum.splits option.splits)

text \<open>
  C5. A \<open>signup\<close> call that succeeds leaves \<open>user\<close> and \<open>localStorage\<close> (so the
  stored entry too) as they were before the call.
\<close>

theorem signup_success_frame:
  assumes "signup createUser uname uemail upass avatar s = (Inr v, s')"
  shows "user s' = user s \<and> localStorage s' = localStorage s"
  using assms by (auto simp add: signup_def Let_def split: sum.splits)

theorem signup_success_frame_example:
  "signup example_createUser (JStr ''Grace'') (JStr ''grace@example.org'') (JStr ''cobol'') JNull
       example_session
     = (Inr JUndefined, example_session\<lparr>loading := False\<rparr>) \<and>
   user (example_session\<lparr>loading := False\<rparr>)
     = user example_session \<and>
   localStorage (example_session\<lparr>loading := False\<rparr>)
     = localStorage example_session"
proof -
  have h: "signup example_createUser (JStr ''Grace'') (JStr ''grace@example.org'') (JStr ''cobol'') JNull
       example_session
     = (Inr JUndefined, example_session\<lparr>loading := False\<rparr>)"
    by (simp add: signup_def example_createUser_def example_session_def initial_session_def)
  from signup_success_frame [OF h] h show ?thesis by simp
qed

section \<open>The resource list client\<close>

text \<open>
  C6. When \<open>getResources\<close> returns a list, the response was successful and carried an
  array of records of the same length, and every returned record has as its \<open>id\<close> a
  string: the text \<open>String\<close> gives for the \<open>id\<close> of the incoming record at the same
  position, whether that was a number, a string or anything else.
\<close>

theorem getResources_ids_textual:
  assumes "getResources nonzero number_text response = Inr out" and "i < length out"
  shows "\<exists>body rs idv t.
           response = Response True (Inr body) \<and> get_prop body ''data'' = Inr (JArr rs) \<and>
           length rs = length out \<and>
           get_prop (rs ! i) ''id'' = Inr idv \<and> js_String number_text idv = Inr t \<and>
           get_prop (out ! i) ''id'' = Inr (JStr t)"
proof -
  from getResources_pointwise [OF assms]
  obtain body rs where resp: "response = Response True (Inr body)"
    and d: "get_prop body ''data'' = Inr (JArr rs)"
    and len: "length rs = length out"
    and w: "with_text_id number_text (rs ! i) = Inr (out ! i)"
    by blast
  from with_text_id_Inr [OF w] obtain idv t where
    "get_prop (rs ! i) ''id'' = Inr idv" "js_String number_text idv = Inr t"
    "out ! i = JObj (AList.update ''id'' (JStr t) (spread (rs ! i)))" by blast
  with resp d len show ?thesis by (simp add: update_conv')
qed

theorem getResources_ids_textual_example:
  "getResources int_nonzero int_text (Response True (Inr example_body)) = Inr example_resources \<and>
   0 < length example_resources \<and> 1 < length example_resources \<and>
   get_prop (example_resources ! 0) ''id'' = Inr (JStr ''1'') \<and>
   get_prop (example_resources ! 1) ''id'' = Inr (JStr ''2'') \<and>
   (\<exists>body rs idv t.
      Response True (Inr example_body) = Response True (Inr body) \<and>
      get_prop body ''data'' = Inr (JArr rs) \<and> length rs = length example_resources \<and>
      get_prop (rs ! 0) ''id'' = Inr idv \<and> js_String int_text idv = Inr t \<and>
      get_prop (example_resources ! 0) ''id'' = Inr (JStr t)) \<and>
   (\<exists>body rs idv t.
      Response True (Inr example_body) = Response True (Inr body) \<and>
      get_prop body ''data'' = Inr (JArr rs) \<and> length rs = length example_resources \<and>
      get_prop (rs ! 1) ''id'' = Inr idv \<and> js_String int_text idv = Inr t \<and>
      get_prop (example_resources ! 1) ''id'' = Inr (JStr t))"
proof -
  have h0: "0 < length example_resources" and h1: "1 < length example_resources"
    by (simp_all add: example_resources_def)
  have ids: "get_prop (example_resources ! 0) ''id'' = Inr (JStr ''1'')"
    "get_prop (example_resources ! 1) ''id'' = Inr (JStr ''2'')"
    by (simp_all add: example_resources_def)
  from getResources_ids_textual [OF example_getResources h0]
       getResources_ids_textual [OF example_getResources h1]
       example_getResources h0 h1 ids
  show ?thesis by blast
qed

text \<open>
  C10. For every record that \<open>getResources\<close> returns, the incoming record at the same
  position, when it is an object, is returned with its properties in the same order
  and with the same values, except that \<open>id\<close> is set to a string; every property
  other than \<open>id\<close> reads the same before and after. A response body without a
  \<open>data\<close> property (reading it gives \<open>undefined\<close>) yields the empty list.
\<close>

theorem getResources_preserves_fields:
  "(getResources nonzero number_text response = Inr out \<and> i < length out \<longrightarrow>
      (\<exists>body rs. response = Response True (Inr body) \<and>
         get_prop body ''data'' = Inr (JArr rs) \<and> length rs = length out \<and>
         (\<forall>ps. rs ! i = JObj ps \<longrightarrow>
            (\<exists>t. out ! i = JObj (AList.update ''id'' (JStr t) ps)) \<and>
            (\<forall>k. k \<noteq> ''id'' \<longrightarrow> get_prop (out ! i) k = get_prop (rs ! i) k)))) \<and>
   (get_prop body' ''data'' = Inr JUndefined \<longrightarrow>
      getResources nonzero number_text (Response True (Inr body')) = Inr [])"
proof (intro conjI impI)
  assume a: "getResources nonzero number_text response = Inr out \<and> i < length out"
  then have g: "getResources nonzero number_text response = Inr out"
    and i: "i < length out" by simp_all
  from getResources_pointwise [OF g i]
  obtain body rs where resp: "response = Response True (Inr body)"
    and d: "get_prop body ''data'' = Inr (JArr rs)"
    and len: "length rs = length out"
    and w: "with_text_id number_text (rs ! i) = Inr (out ! i)"
    by blast
  from with_text_id_Inr [OF w] obtain t where
    o: "out ! i = JObj (AList.update ''id'' (JStr t) (spread (rs ! i)))" by blast
  have "\<forall>ps. rs ! i = JObj ps \<longrightarrow>
            (\<exists>t. out ! i = JObj (AList.update ''id'' (JStr t) ps)) \<and>
            (\<forall>k. k \<noteq> ''id'' \<longrightarrow> get_prop (out ! i) k = get_prop (rs ! i) k)"
    using o by (auto simp add: update_conv')
  with resp d len
  show "\<exists>body rs. response = Response True (Inr body) \<and>
         get_prop body ''data'' = Inr (JArr rs) \<and> length rs = length out \<and>
         (\<forall>ps. rs ! i = JObj ps \<longrightarrow>
            (\<exists>t. out ! i = JObj (AList.update ''id'' (JStr t) ps)) \<and>
            (\<forall>k. k \<noteq> ''id'' \<longrightarrow> get_prop (out ! i) k = get_prop (rs ! i) k))"
    by blast
next
  assume "get_prop body' ''data'' = Inr JUndefined"
  then show "getResources nonzero number_text (Response True (Inr body')) = Inr []"
    by (simp add: getResources_def)
qed

theorem getResources_preserves_fields_example:
  "getResources int_nonzero int_text (Response True (Inr example_body)) = Inr example_resources \<and>
   1 < length example_resources \<and>
   get_prop (example_resources ! 1) ''title'' = Inr (JStr ''Biology'') \<and>
   (\<exists>body rs. Response True (Inr example_body) = Response True (Inr body) \<and>
      get_prop body ''data'' = Inr (JArr rs) \<and> length rs = length example_resources \<and>
      (\<forall>ps. rs ! 1 = JObj ps \<longrightarrow>
         (\<exists>t. example_resources ! 1 = JObj (AList.update ''id'' (JStr t) ps)) \<and>
         (\<forall>k. k \<noteq> ''id'' \<longrightarrow> get_prop (example_resources ! 1) k = get_prop (rs ! 1) k))) \<and>
   get_prop (JObj [(''status'', JStr ''ok'')] :: int jsval) ''data'' = Inr JUndefined \<and>
   getResources int_nonzero int_text (Response True (Inr (JObj [(''status'', JStr ''ok'')]))) = Inr []"
proof -
  have h1: "1 < length example_resources" by (simp add: example_resources_def)
  have h2: "get_prop (example_resources ! 1) ''title'' = Inr (JStr ''Biology'')"
    by (simp add: example_resources_def)
  have h3: "get_prop (JObj [(''status'', JStr ''ok'')] :: int jsval) ''data'' = Inr JUndefined"
    by simp
  from getResources_preserves_fields
         [where nonzero = int_nonzero and number_text = int_text
            and response = "Response True (Inr example_body)" and out = example_resources
            and i = 1 and body' = "JObj [(''status'', JStr ''ok'')]"]
       example_getResources h1
  have p1: "\<exists>body rs. Response True (Inr example_body) = Response True (Inr body) \<and>
      get_prop body ''data'' = Inr (JArr rs) \<and> length rs = length example_resources \<and>
      (\<forall>ps. rs ! 1 = JObj ps \<longrightarrow>
         (\<exists>t. example_resources ! 1 = JObj (AList.update ''id'' (JStr t) ps)) \<and>
         (\<forall>k. k \<noteq> ''id'' \<longrightarrow> get_prop (example_resources ! 1) k = get_prop (rs ! 1) k))"
    by blast
  from getResources_preserves_fields
         [where nonzero = int_nonzero and number_text = int_text
            and response = "Response True (Inr example_body)" and out = example_resources
            and i = 1 and body' = "JObj [(''status'', JStr ''ok'')]"] h3
  have p2: "getResources int_nonzero int_text (Response True (Inr (JObj [(''status'', JStr ''ok'')])))
              = Inr []"
    by blast
  from example_getResources h1 h2 h3 p1 p2 show ?thesis by blast
qed

section \<open>The archive upload client\<close>

text \<open>
  C7. \<open>getMediaType\<close> classifies a file by its declared content type:
  \<open>application/pdf\<close> is \<open>texts\<close>, every type that starts with \<open>video/\<close> is \<open>movies\<close>,
  every type that starts with \<open>image/\<close> is \<open>image\<close>, and every type that starts
  with neither is \<open>texts\<close>.
\<close>

theorem getMediaType_classification:
  "(type file = ''application/pdf'' \<longrightarrow> MediaType_text (getMediaType file) = ''texts'') \<and>
   (prefix ''video/'' (type file) \<longrightarrow> MediaType_text (getMediaType file) = ''movies'') \<and>
   (prefix ''image/'' (type file) \<longrightarrow> MediaType_text (getMediaType file) = ''image'') \<and>
   (\<not> prefix ''video/'' (type file) \<and> \<not> prefix ''image/'' (type file) \<longrightarrow>
      MediaType_text (getMediaType file) = ''texts'')"
  by (auto simp add: getMediaType_def prefix_def)

theorem getMediaType_classification_example:
  "type \<lparr>name = ''notes.pdf'', type = ''application/pdf''\<rparr> = ''application/pdf'' \<and>
   MediaType_text (getMediaType \<lparr>name = ''notes.pdf'', type = ''application/pdf''\<rparr>) = ''texts'' \<and>
   prefix ''video/'' (type \<lparr>name = ''lecture.mp4'', type = ''video/mp4''\<rparr>) \<and>
   MediaType_text (getMediaType \<lparr>name = ''lecture.mp4'', type = ''video/mp4''\<rparr>) = ''movies'' \<and>
   prefix ''image/'' (type \<lparr>name = ''cover.png'', type = ''image/png''\<rparr>) \<and>
   MediaType_text (getMediaType \<lparr>name = ''cover.png'', type = ''image/png''\<rparr>) = ''image'' \<and>
   \<not> prefix ''video/'' (type \<lparr>name = ''readme.txt'', type = ''text/plain''\<rparr>) \<and>
   \<not> prefix ''image/'' (type \<lparr>name = ''readme.txt'', type = ''text/plain''\<rparr>) \<and>
   MediaType_text (getMediaType \<lparr>name = ''readme.txt'', type = ''text/plain''\<rparr>) = ''texts''"
proof -
  have h1: "type \<lparr>name = ''notes.pdf'', type = ''application/pdf''\<rparr> = ''application/pdf''"
    by simp
  have h2: "prefix ''video/'' (type \<lparr>name = ''lecture.mp4'', type = ''video/mp4''\<rparr>)"
    by simp
  have h3: "prefix ''image/'' (type \<lparr>name = ''cover.png'', type = ''image/png''\<rparr>)"
    by simp
  have h4: "\<not> prefix ''video/'' (type \<lparr>name = ''readme.txt'', type = ''text/plain''\<rparr>)"
    "\<not> prefix ''image/'' (type \<lparr>name = ''readme.txt'', type = ''text/plain''\<rparr>)"
    by simp_all
  from getMediaType_classification [of "\<lparr>name = ''notes.pdf'', type = ''application/pdf''\<rparr>"]
       getMediaType_classification [of "\<lparr>name = ''lecture.mp4'', type = ''video/mp4''\<rparr>"]
       getMediaType_classification [of "\<lparr>name = ''cover.png'', type = ''image/png''\<rparr>"]
       getMediaType_classification [of "\<lparr>name = ''readme.txt'', type = ''text/plain''\<rparr>"]
       h1 h2 h3 h4
  show ?thesis by blast
qed

text \<open>
  C8. When either credential is the empty string, \<open>uploadFile\<close> rejects with the
  configuration error and makes no call on any request: nothing is opened, no header
  is set, nothing is sent, whatever the network would have answered.
\<close>

theorem uploadFile_unconfigured:
  assumes "ACCESS_KEY = [] \<or> SECRET_KEY = []"
  shows "uploadFile ACCESS_KEY SECRET_KEY encodeURIComponent file itemName answer
           = ([], Some (Inl (Error errorMessage)))"
  using assms by (simp add: uploadFile_def)

theorem uploadFile_unconfigured_example:
  "(([] :: string) = [] \<or> ''s3cr3t'' = []) \<and>
   uploadFile [] ''s3cr3t'' id \<lparr>name = ''notes.pdf'', type = ''application/pdf''\<rparr> ''lecture-notes''
       (Some (Load 200 ''OK'' []))
     = ([], Some (Inl (Error errorMessage))) \<and>
   (''k3y'' = [] \<or> ([] :: string) = []) \<and>
   uploadFile ''k3y'' [] id \<lparr>name = ''notes.pdf'', type = ''application/pdf''\<rparr> ''lecture-notes''
       (Some (Load 200 ''OK'' []))
     = ([], Some (Inl (Error errorMessage)))"
proof -
  have h1: "([] :: string) = [] \<or> ''s3cr3t'' = []" by simp
  have h2: "''k3y'' = [] \<or> ([] :: string) = []" by simp
  from uploadFile_unconfigured
         [of "[]" "''s3cr3t''" id "\<lparr>name = ''notes.pdf'', type = ''application/pdf''\<rparr>"
             "''lecture-notes''" "Some (Load 200 ''OK'' [])", OF h1]
       uploadFile_unconfigured
         [of "''k3y''" "[]" id "\<lparr>name = ''notes.pdf'', type = ''application/pdf''\<rparr>"
             "''lecture-notes''" "Some (Load 200 ''OK'' [])", OF h2]
       h1 h2
  show ?thesis by simp
qed

end
